theory Spec2Isabelle
  imports Complex_Main
begin

section \<open>The Eastmoney fund sensor (custom\_components/sensor/eastmoney.py)\<close>

text \<open>
  A shallow embedding of the module: the data fetcher \<^verbatim>\<open>EastmoneyData\<close>, the
  entity \<^verbatim>\<open>EastmoneySensor\<close> and \<^verbatim>\<open>setup_platform\<close>. Python values that may be
  \<^verbatim>\<open>None\<close> are options, a raised exception is a value of \<open>pyerr\<close>, the writes to
  the module logger are a list of messages, and every method returns the object it
  mutates.
\<close>

subsection \<open>Exceptions, floats and log messages\<close>

datatype pyerr =
    TypeError | ValueError | IndexError
  | ConnectError | HTTPError | Timeout
  | OtherRequestError

text \<open>
  The result of Python's builtin \<^verbatim>\<open>float(s)\<close>. The builtin is not part of the
  module: the functions below take it as the parameter \<open>pf\<close>, so that what is proved
  of them holds for whatever the builtin returns. Only the comparisons with zero are
  used by the module; a NaN compares false both ways.
\<close>

datatype pyfloat = Finite real | PosInf | NegInf | NaN

fun flt_lt0 :: "pyfloat \<Rightarrow> bool" where
  "flt_lt0 (Finite r) = (r < 0)"
| "flt_lt0 NegInf = True"
| "flt_lt0 PosInf = False"
| "flt_lt0 NaN = False"

fun flt_gt0 :: "pyfloat \<Rightarrow> bool" where
  "flt_gt0 (Finite r) = (0 < r)"
| "flt_gt0 PosInf = True"
| "flt_gt0 NegInf = False"
| "flt_gt0 NaN = False"

type_synonym pyfloat_fn = "string \<Rightarrow> pyerr + pyfloat"

text \<open>
  The calls of \<^verbatim>\<open>_LOGGER.error\<close>, one constructor per message of the module:
  "Unable to connect to Eastmoney. %s", "Invalid fund id: %s.",
  "Element 'div,class_=fundInfoItem' not found.",
  "Element 'div,class_=dataOfFund' not found.",
  "Element 'div,class_=dataItem01|dataItem02' not found." and "Element 'dd' error.".
\<close>

datatype logmsg =
    Unable_to_connect pyerr
  | Invalid_fund_id string
  | FundInfoItem_not_found
  | DataOfFund_not_found
  | DataItem_not_found
  | Element_dd_error

subsection \<open>The parsed document\<close>

text \<open>
  The tree that \<^verbatim>\<open>BeautifulSoup(resp.text, 'html.parser')\<close> builds: a text node, or
  a tag with its name, its \<^verbatim>\<open>id\<close> attribute, the tokens of its \<^verbatim>\<open>class\<close>
  attribute (bs4 keeps \<^verbatim>\<open>class\<close> as a list) and its children.
\<close>

datatype node =
    Text string
  | Tag string "string option" "string list" "node list"

text \<open>\<^verbatim>\<open>Tag.descendants\<close>: every node below a tag, in document order.\<close>

fun descendants :: "node \<Rightarrow> node list" where
  "descendants (Text s) = []"
| "descendants (Tag nm i cls ks) = concat (map (\<lambda>k. k # descendants k) ks)"

text \<open>\<^verbatim>\<open>Tag.text\<close>: the text nodes below a tag, concatenated.\<close>

fun get_text :: "node \<Rightarrow> string" where
  "get_text (Text s) = s"
| "get_text (Tag nm i cls ks) = concat (map get_text ks)"

fun join_sp :: "string list \<Rightarrow> string" where
  "join_sp [] = []"
| "join_sp [w] = w"
| "join_sp (w # ws) = w @ '' '' @ join_sp ws"

text \<open>
  bs4 matches \<^verbatim>\<open>class_=c\<close> against a tag when \<open>c\<close> is one of the tag's class
  tokens, or when \<open>c\<close> is the whole attribute (the tokens joined by one space).
\<close>

definition class_matches :: "string \<Rightarrow> string list \<Rightarrow> bool" where
  "class_matches c cls = (c \<in> set cls \<or> (cls \<noteq> [] \<and> c = join_sp cls))"

fun has_name :: "string \<Rightarrow> node \<Rightarrow> bool" where
  "has_name nm (Text s) = False"
| "has_name nm (Tag n i cls ks) = (n = nm)"

fun has_class :: "string \<Rightarrow> string \<Rightarrow> node \<Rightarrow> bool" where
  "has_class nm c (Text s) = False"
| "has_class nm c (Tag n i cls ks) = (n = nm \<and> class_matches c cls)"

fun has_id :: "string \<Rightarrow> string \<Rightarrow> node \<Rightarrow> bool" where
  "has_id nm x (Text s) = False"
| "has_id nm x (Tag n i cls ks) = (n = nm \<and> i = Some x)"

text \<open>
  \<^verbatim>\<open>find_all\<close> filters the descendants; \<^verbatim>\<open>find\<close> is the first element of
  \<^verbatim>\<open>find_all\<close>, or \<^verbatim>\<open>None\<close>.
\<close>

definition find_all :: "(node \<Rightarrow> bool) \<Rightarrow> node \<Rightarrow> node list" where
  "find_all p n = filter p (descendants n)"

definition find_tag :: "(node \<Rightarrow> bool) \<Rightarrow> node \<Rightarrow> node option" where
  "find_tag p n = (case find_all p n of [] \<Rightarrow> None | x # xs \<Rightarrow> Some x)"

subsection \<open>String operations\<close>

text \<open>\<^verbatim>\<open>s.split(c)\<close>: the pieces between every occurrence of \<open>c\<close>.\<close>

fun split_on :: "char \<Rightarrow> string \<Rightarrow> string list" where
  "split_on c [] = [[]]"
| "split_on c (x # xs) =
     (if x = c then [] # split_on c xs
      else (x # hd (split_on c xs)) # tl (split_on c xs))"

definition lstrip :: "char \<Rightarrow> string \<Rightarrow> string" where
  "lstrip c s = dropWhile (\<lambda>x. x = c) s"

definition rstrip :: "char \<Rightarrow> string \<Rightarrow> string" where
  "rstrip c s = rev (dropWhile (\<lambda>x. x = c) (rev s))"

text \<open>
  \<^verbatim>\<open>PAT_DATE = re.compile(r'\d{4}-\d{1,2}-\d{1,2}')\<close>. \<open>pat_date_match\<close> is a match
  that starts at the head of the string. Both \<^verbatim>\<open>\d{1,2}\<close> are greedy; giving a
  digit of the month back never helps, since a digit would then stand where the
  second hyphen must.
\<close>

definition digit :: "char \<Rightarrow> bool" where
  "digit c = (c \<in> set ''0123456789'')"

definition pat_date_match :: "string \<Rightarrow> string option" where
  "pat_date_match s =
     (let y = take 4 s; m = takeWhile digit (take 2 (drop 5 s));
          r = drop (5 + length m) s; d = takeWhile digit (take 2 (drop 1 r))
      in if length y = 4 \<and> list_all digit y \<and> take 1 (drop 4 s) = ''-'' \<and> m \<noteq> []
            \<and> take 1 r = ''-'' \<and> d \<noteq> []
         then Some (y @ ''-'' @ m @ ''-'' @ d) else None)"

text \<open>
  The leftmost match, which is \<^verbatim>\<open>re.findall(PAT_DATE, s)[0]\<close> when there is one;
  with no match \<^verbatim>\<open>findall\<close> returns the empty list.
\<close>

fun pat_date_first :: "string \<Rightarrow> string option" where
  "pat_date_first [] = None"
| "pat_date_first (c # cs) =
     (case pat_date_match (c # cs) of
        Some m \<Rightarrow> Some m
      | None \<Rightarrow> pat_date_first cs)"

subsection \<open>The snapshot\<close>

text \<open>
  The dictionaries the module builds. Every entry is a Python value that may be
  \<^verbatim>\<open>None\<close>. The key \<^verbatim>\<open>'nav'\<close> of the settled group is the field \<open>nav_value\<close>
  here, since the snapshot has a key \<^verbatim>\<open>'nav'\<close> of its own.
\<close>

record estnav =
  enav_time :: "string option"
  enav :: "string option"
  enav_growth :: "string option"
  enav_rate :: "string option"
  rct_1month :: "string option"
  rct_1year :: "string option"

record navrec =
  nav_date :: "string option"
  nav_value :: "string option"
  nav_rate :: "string option"
  rct_3month :: "string option"
  rct_3year :: "string option"

record snapshot =
  est_nav :: estnav
  nav :: navrec
  last_update :: "string option"

text \<open>What a method does: the messages it logs, and the exception or the value.\<close>

type_synonym 'a outcome = "logmsg list \<times> (pyerr + 'a)"

subsection \<open>\<^verbatim>\<open>EastmoneyData._get_fund_tit\<close>\<close>

definition get_fund_tit :: "node \<Rightarrow> string list option" where
  "get_fund_tit soup =
     (case find_tag (has_class ''div'' ''fundDetail-tit'') soup of
        None \<Rightarrow> None
      | Some fund_tit \<Rightarrow>
          (case find_tag (has_name ''div'') fund_tit of
             None \<Rightarrow> None
           | Some tit \<Rightarrow> Some (split_on CHR ''('' (get_text tit))))"

subsection \<open>\<^verbatim>\<open>EastmoneyData._get_estnav\<close>\<close>

definition green_middle :: string where
  "green_middle = ''ui-font-middle ui-color-green ui-num''"

definition red_middle :: string where
  "red_middle = ''ui-font-middle ui-color-red ui-num''"

definition green_large :: string where
  "green_large = ''ui-font-large ui-color-green ui-num''"

definition red_large :: string where
  "red_large = ''ui-font-large ui-color-red ui-num''"

text \<open>
  The lookup the module writes as \<^verbatim>\<open>x = dd.find('span', class_=green)\<close> followed by
  \<^verbatim>\<open>if x is None: x = dd.find('span', class_=red)\<close>.
\<close>

definition find_green_red :: "string \<Rightarrow> string \<Rightarrow> node \<Rightarrow> node option" where
  "find_green_red green red dd =
     (case find_tag (has_class ''span'' green) dd of
        None \<Rightarrow> find_tag (has_class ''span'' red) dd
      | Some x \<Rightarrow> Some x)"

text \<open>
  The local variables of the module that hold first an element and then its text
  are two variables here, \<open>e_\<close> and \<open>t_\<close>.

  Lines 212 to 215: \<^verbatim>\<open>nav_rate[0:-1]\<close> raises TypeError on \<^verbatim>\<open>None\<close>, \<^verbatim>\<open>float\<close>
  raises what \<open>pf\<close> returns, and \<^verbatim>\<open>'-' + nav_growth\<close> raises TypeError on \<^verbatim>\<open>None\<close>.
\<close>

definition correct_growth ::
  "pyfloat_fn \<Rightarrow> string option \<Rightarrow> string option \<Rightarrow> pyerr + string option" where
  "correct_growth pf t_rate t_growth =
     (case t_rate of
        None \<Rightarrow> Inl TypeError
      | Some r \<Rightarrow>
          (case pf (butlast r) of
             Inl e \<Rightarrow> Inl e
           | Inr x \<Rightarrow>
               if flt_lt0 x then
                 (case t_growth of
                    None \<Rightarrow> Inl TypeError
                  | Some g \<Rightarrow> Inr (Some (CHR ''-'' # g)))
               else Inr t_growth))"

definition get_estnav :: "pyfloat_fn \<Rightarrow> node \<Rightarrow> estnav option outcome" where
  "get_estnav pf estnav_data =
     (let e_time = find_tag (has_id ''span'' ''gz_gztime'') estnav_data;
          dds = find_all (has_name ''dd'') estnav_data
      in if length dds \<noteq> 3 then ([Element_dd_error], Inr None)
         else
           let e_nav = find_tag (has_id ''span'' ''gz_gsz'') (dds ! 0);
               e_growth = find_tag (has_id ''span'' ''gz_gszze'') (dds ! 0);
               e_rate = find_tag (has_id ''span'' ''gz_gszzl'') (dds ! 0);
               e_1month = find_green_red green_middle red_middle (dds ! 1);
               e_1year = find_green_red green_middle red_middle (dds ! 2);
               t_time = map_option (\<lambda>t. rstrip CHR '')'' (lstrip CHR ''('' (get_text t))) e_time;
               t_nav = map_option get_text e_nav;
               t_growth = map_option get_text e_growth;
               t_rate = map_option get_text e_rate;
               t_1month = map_option get_text e_1month;
               t_1year = map_option get_text e_1year
           in if t_nav = None \<or> t_time = None then ([], Inr None)
              else
                (case correct_growth pf t_rate t_growth of
                   Inl e \<Rightarrow> ([], Inl e)
                 | Inr c_growth \<Rightarrow>
                     ([], Inr (Some \<lparr>enav_time = t_time, enav = t_nav,
                        enav_growth = c_growth, enav_rate = t_rate,
                        rct_1month = t_1month, rct_1year = t_1year\<rparr>))))"

subsection \<open>\<^verbatim>\<open>EastmoneyData._get_nav\<close>\<close>

text \<open>
  Line 232: \<^verbatim>\<open>re.findall(PAT_DATE, date.text)[0]\<close> raises IndexError when the
  pattern matches nowhere.
\<close>

definition get_date :: "node option \<Rightarrow> pyerr + string option" where
  "get_date e_date =
     (case e_date of
        None \<Rightarrow> Inr None
      | Some dt \<Rightarrow>
          (case pat_date_first (get_text dt) of
             None \<Rightarrow> Inl IndexError
           | Some m \<Rightarrow> Inr (Some m)))"

definition get_nav :: "node \<Rightarrow> navrec option outcome" where
  "get_nav nav_data =
     (let e_date = find_tag (has_name ''dt'') nav_data;
          dds = find_all (has_name ''dd'') nav_data
      in if length dds \<noteq> 3 then ([Element_dd_error], Inr None)
         else
           let e_nav = find_green_red green_large red_large (dds ! 0);
               e_rate = find_green_red green_middle red_middle (dds ! 0);
               e_3month = find_tag (has_class ''span'' green_middle) (dds ! 1);
               e_3year = find_tag (has_class ''span'' red_middle) (dds ! 2)
           in (case get_date e_date of
                 Inl e \<Rightarrow> ([], Inl e)
               | Inr t_date \<Rightarrow>
                   let t_nav = map_option get_text e_nav;
                       t_rate = map_option get_text e_rate;
                       t_3month = map_option get_text e_3month;
                       t_3year = map_option get_text e_3year
                   in if t_nav = None \<or> t_date = None then ([], Inr None)
                      else ([], Inr (Some \<lparr>nav_date = t_date, nav_value = t_nav,
                              nav_rate = t_rate, rct_3month = t_3month,
                              rct_3year = t_3year\<rparr>))))"

subsection \<open>\<^verbatim>\<open>EastmoneyData._analyze\<close>\<close>

definition analyze :: "pyfloat_fn \<Rightarrow> node \<Rightarrow> snapshot option outcome" where
  "analyze pf soup =
     (case find_tag (has_class ''div'' ''fundInfoItem'') soup of
        None \<Rightarrow> ([FundInfoItem_not_found], Inr None)
      | Some fund_info_item \<Rightarrow>
          (case find_tag (has_class ''div'' ''dataOfFund'') fund_info_item of
             None \<Rightarrow> ([DataOfFund_not_found], Inr None)
           | Some fund_data \<Rightarrow>
               (case (find_tag (has_class ''dl'' ''dataItem01'') fund_data,
                      find_tag (has_class ''dl'' ''dataItem02'') fund_data) of
                  (Some data_item_01, Some data_item_02) \<Rightarrow>
                    (case get_estnav pf data_item_01 of
                       (l1, Inl e) \<Rightarrow> (l1, Inl e)
                     | (l1, Inr est) \<Rightarrow>
                         (case get_nav data_item_02 of
                            (l2, Inl e) \<Rightarrow> (l1 @ l2, Inl e)
                          | (l2, Inr nv) \<Rightarrow>
                              (case (est, nv) of
                                 (Some e, Some n) \<Rightarrow>
                                   (l1 @ l2, Inr (Some \<lparr>est_nav = e, nav = n,
                                      last_update = enav_time e\<rparr>))
                               | _ \<Rightarrow> (l1 @ l2, Inr None))))
                | _ \<Rightarrow> ([DataItem_not_found], Inr None))))"

subsection \<open>\<^verbatim>\<open>EastmoneyData\<close>: the object and \<^verbatim>\<open>_update\<close>\<close>

text \<open>
  The fields of the object are \<open>fund_id\<close> and \<open>data\<close>. \<open>interval\<close> and \<open>last_fetch\<close>
  are the state of the throttle around \<^verbatim>\<open>update\<close> (times and durations are integers,
  in one unit). \<open>fetches\<close> counts the calls of \<^verbatim>\<open>requests.get\<close> and \<open>logged\<close> holds
  the messages written to the logger: both only observe the run.
\<close>

record fetcher =
  fund_id :: string
  data :: "snapshot option"
  interval :: int
  last_fetch :: "int option"
  fetches :: nat
  logged :: "logmsg list"

definition EastmoneyData :: "string \<Rightarrow> int \<Rightarrow> fetcher" where
  "EastmoneyData fid internal =
     \<lparr>fund_id = fid, data = None, interval = internal, last_fetch = None,
      fetches = 0, logged = []\<rparr>"

text \<open>
  What \<^verbatim>\<open>requests.get(url)\<close> does: it returns a response, here the document parsed
  from its text, or it raises. The network is a function of the URL.
\<close>

datatype response = Got node | Raised pyerr

definition url_of :: "string \<Rightarrow> string" where
  "url_of fid = ''http://fund.eastmoney.com/'' @ fid @ ''.html?spm=aladin''"

text \<open>The exceptions that the \<^verbatim>\<open>except\<close> clause of line 140 catches.\<close>

definition caught :: "pyerr \<Rightarrow> bool" where
  "caught e = (e \<in> {ConnectError, HTTPError, Timeout, ValueError})"

text \<open>Line 147: \<^verbatim>\<open>tit is not None and len(tit) == 2 and tit[1] == self.fund_id\<close>.\<close>

definition tit_ok :: "string list option \<Rightarrow> string \<Rightarrow> bool" where
  "tit_ok tit fid =
     (case tit of None \<Rightarrow> False | Some t \<Rightarrow> length t = 2 \<and> t ! 1 = fid)"

text \<open>\<^verbatim>\<open>_update\<close>: the exception that leaves the method, if any, and the object.\<close>

definition do_update ::
  "pyfloat_fn \<Rightarrow> (string \<Rightarrow> response) \<Rightarrow> fetcher \<Rightarrow> pyerr option \<times> fetcher" where
  "do_update pf get fd =
     (let fd1 = fd\<lparr>fetches := fetches fd + 1\<rparr> in
      case get (url_of (fund_id fd)) of
        Raised error \<Rightarrow>
          if caught error
          then (None, fd1\<lparr>logged := logged fd1 @ [Unable_to_connect error]\<rparr>)
          else (Some error, fd1)
      | Got soup \<Rightarrow>
          if tit_ok (get_fund_tit soup) (fund_id fd) then
            (case analyze pf soup of
               (l, Inl e) \<Rightarrow> (Some e, fd1\<lparr>logged := logged fd1 @ l\<rparr>)
             | (l, Inr r) \<Rightarrow> (None, fd1\<lparr>logged := logged fd1 @ l, data := r\<rparr>))
          else (None, fd1\<lparr>logged := logged fd1 @ [Invalid_fund_id (fund_id fd)]\<rparr>))"

subsection \<open>The throttle around \<^verbatim>\<open>update\<close>\<close>

text \<open>
  Modelled from the spec: \<^verbatim>\<open>homeassistant.util.Throttle\<close>, which line 131 wraps
  around \<^verbatim>\<open>_update\<close> and which is not part of the module. The spec (4.1): "if time
  since last invocation < configured minimum interval, returns immediately without
  network activity and without altering Snapshot. Otherwise performs the fetch
  pipeline below and unconditionally updates the last-fetch timestamp regardless of
  outcome." \<open>now\<close> is the time of the call.
\<close>

definition throttled :: "fetcher \<Rightarrow> int \<Rightarrow> bool" where
  "throttled fd now =
     (case last_fetch fd of None \<Rightarrow> False | Some t \<Rightarrow> now - t < interval fd)"

definition update ::
  "pyfloat_fn \<Rightarrow> (string \<Rightarrow> response) \<Rightarrow> int \<Rightarrow> fetcher \<Rightarrow> pyerr option \<times> fetcher" where
  "update pf get now fd =
     (if throttled fd now then (None, fd)
      else (case do_update pf get fd of
              (e, fd') \<Rightarrow> (e, fd'\<lparr>last_fetch := Some now\<rparr>)))"

subsection \<open>\<^verbatim>\<open>EastmoneySensor\<close>\<close>

text \<open>
  The entity owns the only reference to its fetcher once \<^verbatim>\<open>setup_platform\<close> has
  returned, so the fetcher is a field of the record.
\<close>

record sensor =
  fund_data :: fetcher
  client_name :: string
  state :: "string option"
  trend :: int

definition EastmoneySensor :: "fetcher \<Rightarrow> string \<Rightarrow> sensor" where
  "EastmoneySensor fd nm = \<lparr>fund_data = fd, client_name = nm, state = None, trend = - 1\<rparr>"

definition icon :: "sensor \<Rightarrow> string" where
  "icon s =
     (if trend s = 1 then ''mdi:trending-up''
      else if trend s = - 1 then ''mdi:trending-down''
      else ''mdi:trending-neutral'')"

text \<open>\<^verbatim>\<open>float(v)\<close> of a value that may be \<^verbatim>\<open>None\<close>: TypeError on \<^verbatim>\<open>None\<close>.\<close>

definition float_of :: "pyfloat_fn \<Rightarrow> string option \<Rightarrow> pyerr + pyfloat" where
  "float_of pf v = (case v of None \<Rightarrow> Inl TypeError | Some s \<Rightarrow> pf s)"

definition trend_of :: "pyfloat \<Rightarrow> int" where
  "trend_of growth = (if flt_gt0 growth then 1 else if flt_lt0 growth then - 1 else 0)"

text \<open>\<^verbatim>\<open>EastmoneySensor.update\<close>: the exception that leaves it, if any, and the entity.\<close>

definition sensor_update ::
  "pyfloat_fn \<Rightarrow> (string \<Rightarrow> response) \<Rightarrow> int \<Rightarrow> sensor \<Rightarrow> pyerr option \<times> sensor" where
  "sensor_update pf get now s =
     (case update pf get now (fund_data s) of
        (Some e, fd) \<Rightarrow> (Some e, s\<lparr>fund_data := fd\<rparr>)
      | (None, fd) \<Rightarrow>
          (case data fd of
             None \<Rightarrow> (None, s\<lparr>fund_data := fd\<rparr>)
           | Some d \<Rightarrow>
               (case float_of pf (enav_growth (est_nav d)) of
                  Inl e \<Rightarrow> (Some e, s\<lparr>fund_data := fd, state := enav (est_nav d)\<rparr>)
                | Inr growth \<Rightarrow>
                    (None, s\<lparr>fund_data := fd, state := enav (est_nav d),
                              trend := trend_of growth\<rparr>))))"

subsection \<open>\<^verbatim>\<open>setup_platform\<close>\<close>

record config =
  conf_fund_id :: string
  conf_name :: string
  conf_update_interval :: int

text \<open>
  The result has three parts: the exception or the returned value (\<^verbatim>\<open>False\<close>, or
  \<^verbatim>\<open>None\<close> at the end of the body), the fetcher as the call leaves it, and the
  entities handed to \<^verbatim>\<open>add_devices\<close> (none when it is not called).
\<close>

definition setup_platform ::
  "pyfloat_fn \<Rightarrow> (string \<Rightarrow> response) \<Rightarrow> int \<Rightarrow> config
     \<Rightarrow> (pyerr + bool option) \<times> fetcher \<times> sensor list" where
  "setup_platform pf get now cfg =
     (case update pf get now (EastmoneyData (conf_fund_id cfg) (conf_update_interval cfg)) of
        (Some e, fd) \<Rightarrow> (Inl e, fd, [])
      | (None, fd) \<Rightarrow>
          if data fd = None then (Inr (Some False), fd, [])
          else (Inr None, fd, [EastmoneySensor fd (conf_name cfg)]))"

section \<open>Notions the properties are stated with\<close>

subsection \<open>Complete snapshots and runs of polls\<close>

text \<open>
  A snapshot is complete when its four mandatory entries are present and
  \<^verbatim>\<open>last_update\<close> is the time of the estimate.
\<close>

definition complete :: "snapshot \<Rightarrow> bool" where
  "complete s =
     (enav (est_nav s) \<noteq> None \<and> enav_time (est_nav s) \<noteq> None \<and>
      nav_value (nav s) \<noteq> None \<and> nav_date (nav s) \<noteq> None \<and>
      last_update s = enav_time (est_nav s))"

definition data_ok :: "fetcher \<Rightarrow> bool" where
  "data_ok fd = (case data fd of None \<Rightarrow> True | Some s \<Rightarrow> complete s)"

text \<open>
  The host calls \<^verbatim>\<open>update\<close> again and again, each time against some network and
  at some time, whether or not the call before raised.
\<close>

fun polls :: "pyfloat_fn \<Rightarrow> ((string \<Rightarrow> response) \<times> int) list \<Rightarrow> fetcher \<Rightarrow> fetcher" where
  "polls pf [] fd = fd"
| "polls pf ((get, now) # ps) fd = polls pf ps (snd (update pf get now fd))"

subsection \<open>What stands in the markup\<close>

text \<open>The \<open>k\<close>-th \<^verbatim>\<open>dd\<close> of a region, and the text of the span with a given id.\<close>

definition dd_of :: "node \<Rightarrow> nat \<Rightarrow> node" where
  "dd_of region k = find_all (has_name ''dd'') region ! k"

definition text_by_id :: "string \<Rightarrow> node \<Rightarrow> string option" where
  "text_by_id i n = map_option get_text (find_tag (has_id ''span'' i) n)"

text \<open>
  The text of the first span that carries a marker, and the lookup by two markers:
  the green one first, the red one when no span carries the green one.
\<close>

definition first_with :: "string \<Rightarrow> node \<Rightarrow> string option" where
  "first_with c dd = map_option get_text (List.find (has_class ''span'' c) (descendants dd))"

definition by_marker :: "string \<Rightarrow> string \<Rightarrow> node \<Rightarrow> string option" where
  "by_marker green red dd =
     (case first_with green dd of Some t \<Rightarrow> Some t | None \<Rightarrow> first_with red dd)"

subsection \<open>The title, as the specification reads it\<close>

text \<open>
  The text of the title region, its split at the first occurrence of a character into
  the part before and the part after, and the second part of the title split at the
  first opening parenthesis.
\<close>

definition title_text :: "node \<Rightarrow> string option" where
  "title_text soup =
     (case find_tag (has_class ''div'' ''fundDetail-tit'') soup of
        None \<Rightarrow> None
      | Some fund_tit \<Rightarrow> map_option get_text (find_tag (has_name ''div'') fund_tit))"

definition split_first :: "char \<Rightarrow> string \<Rightarrow> (string \<times> string) option" where
  "split_first c s =
     (if c \<in> set s
      then Some (takeWhile (\<lambda>x. x \<noteq> c) s, tl (dropWhile (\<lambda>x. x \<noteq> c) s))
      else None)"

definition title_second :: "node \<Rightarrow> string option" where
  "title_second soup =
     (case title_text soup of
        None \<Rightarrow> None
      | Some t \<Rightarrow> map_option snd (split_first CHR ''('' t))"

section \<open>Concrete runs\<close>

subsection \<open>A reader of decimal literals, and pages\<close>

text \<open>
  \<open>dec_float\<close> reads a plain decimal literal (an optional sign, digits, an optional
  point and digits) as \<^verbatim>\<open>float\<close> does; it stands for the builtin in the concrete
  runs below, whose literals all have this form and a few digits. Python's
  \<^verbatim>\<open>float\<close> accepts more (exponents, \<^verbatim>\<open>inf\<close>, \<^verbatim>\<open>nan\<close>, blanks around the
  literal), which no run below uses.
\<close>

definition digit_val :: "char \<Rightarrow> nat" where
  "digit_val c = of_char c - 48"

definition dec_val :: "string \<Rightarrow> nat" where
  "dec_val ds = foldl (\<lambda>n c. 10 * n + digit_val c) 0 ds"

definition dec_float :: pyfloat_fn where
  "dec_float s =
     (let neg = (take 1 s = ''-'');
          body = (if take 1 s = ''-'' \<or> take 1 s = ''+'' then drop 1 s else s);
          ip = takeWhile digit body;
          rest = drop (length ip) body;
          fp = drop 1 rest;
          v = real (dec_val (ip @ fp)) / 10 ^ length fp
      in if (rest = [] \<and> ip \<noteq> []) \<or>
            (take 1 rest = ''.'' \<and> list_all digit fp \<and> ip @ fp \<noteq> [])
         then Inr (Finite (if neg then - v else v))
         else Inl ValueError)"

definition span_id :: "string \<Rightarrow> string \<Rightarrow> node" where
  "span_id i t = Tag ''span'' (Some i) [] [Text t]"

definition span_cls :: "string list \<Rightarrow> string \<Rightarrow> node" where
  "span_cls cls t = Tag ''span'' None cls [Text t]"

definition title_region :: "string \<Rightarrow> node" where
  "title_region t =
     Tag ''div'' None [''fundDetail-tit'']
       [Tag ''div'' None [] [Text ''ABC Fund'', Tag ''span'' None [] [Text t]]]"

text \<open>The estimate region, given the children of its first \<^verbatim>\<open>dd\<close>.\<close>

definition est_region :: "node list \<Rightarrow> node" where
  "est_region dd0 =
     Tag ''dl'' None [''dataItem01'']
       [Tag ''dt'' None [] [Text ''est'', span_id ''gz_gztime'' ''(23-05-10 15:00)''],
        Tag ''dd'' None [''dataNums''] dd0,
        Tag ''dd'' None [] [span_cls [''ui-font-middle'', ''ui-color-green'', ''ui-num''] ''-2.10%''],
        Tag ''dd'' None [] [span_cls [''ui-font-middle'', ''ui-color-red'', ''ui-num''] ''10.52%'']]"

text \<open>The settled region, given the text of its \<^verbatim>\<open>dt\<close>.\<close>

definition nav_region :: "string \<Rightarrow> node" where
  "nav_region t =
     Tag ''dl'' None [''dataItem02'']
       [Tag ''dt'' None [] [Text t],
        Tag ''dd'' None [''dataNums'']
          [span_cls [''ui-font-large'', ''ui-color-red'', ''ui-num''] ''1.200'',
           span_cls [''ui-font-middle'', ''ui-color-red'', ''ui-num''] ''0.35%''],
        Tag ''dd'' None [] [span_cls [''ui-font-middle'', ''ui-color-green'', ''ui-num''] ''-3.20%''],
        Tag ''dd'' None [] [span_cls [''ui-font-middle'', ''ui-color-red'', ''ui-num''] ''12.00%'']]"

definition page :: "string \<Rightarrow> node list \<Rightarrow> string \<Rightarrow> node" where
  "page t dd0 dt =
     Tag ''[document]'' None []
       [title_region t,
        Tag ''div'' None [''fundInfoItem'']
          [Tag ''div'' None [''dataOfFund''] [est_region dd0, nav_region dt]]]"

text \<open>A page with the title region and nothing else.\<close>

definition title_page :: "string \<Rightarrow> node" where
  "title_page t = Tag ''[document]'' None [] [title_region t]"

definition est_dd0 :: "string \<Rightarrow> string \<Rightarrow> node list" where
  "est_dd0 growth rate =
     [span_id ''gz_gsz'' ''1.234'', span_id ''gz_gszze'' growth, span_id ''gz_gszzl'' rate]"

text \<open>A network that serves one document at the URL of one fund.\<close>

definition serve :: "string \<Rightarrow> node \<Rightarrow> string \<Rightarrow> response" where
  "serve fid doc url = (if url = url_of fid then Got doc else Raised ConnectError)"

text \<open>Pages of fund 000001, and the dictionaries the module builds from them.\<close>

definition page_of :: "string \<Rightarrow> string \<Rightarrow> node" where
  "page_of growth rate = page ''(000001'' (est_dd0 growth rate) ''NAV (2023-5-9)''"

definition page_ok :: node where
  "page_ok = page_of ''5'' ''-1.2%''"

definition page_no_date :: node where
  "page_no_date = page ''(000001'' (est_dd0 ''5'' ''-1.2%'') ''NAV''"

definition page_no_rate :: node where
  "page_no_rate = page ''(000001'' [span_id ''gz_gsz'' ''1.234''] ''NAV (2023-5-9)''"

definition page_no_growth :: node where
  "page_no_growth =
     page ''(000001'' [span_id ''gz_gsz'' ''1.234'', span_id ''gz_gszzl'' ''1.2%''] ''NAV (2023-5-9)''"

definition estnav_of :: "string \<Rightarrow> string \<Rightarrow> estnav" where
  "estnav_of growth rate =
     \<lparr>enav_time = Some ''23-05-10 15:00'', enav = Some ''1.234'', enav_growth = Some growth,
      enav_rate = Some rate, rct_1month = Some ''-2.10%'', rct_1year = Some ''10.52%''\<rparr>"

definition navrec_ok :: navrec where
  "navrec_ok =
     \<lparr>nav_date = Some ''2023-5-9'', nav_value = Some ''1.200'', nav_rate = Some ''0.35%'',
      rct_3month = Some ''-3.20%'', rct_3year = Some ''12.00%''\<rparr>"

definition snapshot_of :: "string \<Rightarrow> string \<Rightarrow> snapshot" where
  "snapshot_of growth rate =
     \<lparr>est_nav = estnav_of growth rate, nav = navrec_ok, last_update = Some ''23-05-10 15:00''\<rparr>"

definition snapshot_ok :: snapshot where
  "snapshot_ok = snapshot_of ''-5'' ''-1.2%''"

text \<open>The fetcher of fund 000001 after a first poll at time 0 that stored a snapshot.\<close>

definition fetcher_with :: "snapshot \<Rightarrow> fetcher" where
  "fetcher_with d =
     \<lparr>fund_id = ''000001'', data = Some d, interval = 900, last_fetch = Some 0,
      fetches = 1, logged = []\<rparr>"

definition config_ok :: config where
  "config_ok = \<lparr>conf_fund_id = ''000001'', conf_name = ''Fund'', conf_update_interval = 900\<rparr>"

section \<open>What the extraction returns\<close>

lemma get_estnav_Some:
  assumes "get_estnav pf d = (l, Inr (Some e))"
  shows "l = [] \<and> length (find_all (has_name ''dd'') d) = 3 \<and>
         enav e = text_by_id ''gz_gsz'' (dd_of d 0) \<and> enav e \<noteq> None \<and>
         enav_time e \<noteq> None \<and>
         enav_rate e = text_by_id ''gz_gszzl'' (dd_of d 0) \<and>
         correct_growth pf (text_by_id ''gz_gszzl'' (dd_of d 0))
            (text_by_id ''gz_gszze'' (dd_of d 0)) = Inr (enav_growth e) \<and>
         rct_1month e = map_option get_text (find_green_red green_middle red_middle (dd_of d 1)) \<and>
         rct_1year e = map_option get_text (find_green_red green_middle red_middle (dd_of d 2))"
  using assms
  by (auto simp: get_estnav_def Let_def dd_of_def text_by_id_def split: if_splits sum.splits)

lemma get_nav_Some:
  assumes "get_nav d = (l, Inr (Some n))"
  shows "l = [] \<and> length (find_all (has_name ''dd'') d) = 3 \<and>
         nav_value n = map_option get_text (find_green_red green_large red_large (dd_of d 0)) \<and>
         nav_value n \<noteq> None \<and> nav_date n \<noteq> None \<and>
         get_date (find_tag (has_name ''dt'') d) = Inr (nav_date n) \<and>
         nav_rate n = map_option get_text (find_green_red green_middle red_middle (dd_of d 0)) \<and>
         rct_3month n = map_option get_text (find_tag (has_class ''span'' green_middle) (dd_of d 1)) \<and>
         rct_3year n = map_option get_text (find_tag (has_class ''span'' red_middle) (dd_of d 2))"
  using assms
  by (auto simp: get_nav_def Let_def dd_of_def split: if_splits sum.splits)

lemma analyze_Some:
  assumes "analyze pf soup = (l, Inr (Some s))"
  shows "\<exists>d1 d2 l1 l2. get_estnav pf d1 = (l1, Inr (Some (est_nav s))) \<and>
           get_nav d2 = (l2, Inr (Some (nav s))) \<and> last_update s = enav_time (est_nav s)"
  using assms
  by (auto simp: analyze_def split: option.splits sum.splits prod.splits) blast+

lemma analyze_complete:
  assumes "analyze pf soup = (l, Inr (Some s))"
  shows "complete s"
proof -
  from analyze_Some [OF assms] obtain d1 d2 l1 l2 where
    e: "get_estnav pf d1 = (l1, Inr (Some (est_nav s)))" and
    n: "get_nav d2 = (l2, Inr (Some (nav s)))" and
    u: "last_update s = enav_time (est_nav s)"
    by blast
  from get_estnav_Some [OF e] have "enav (est_nav s) \<noteq> None" "enav_time (est_nav s) \<noteq> None"
    by blast+
  moreover from get_nav_Some [OF n] have "nav_value (nav s) \<noteq> None" "nav_date (nav s) \<noteq> None"
    by blast+
  ultimately show ?thesis using u
    by (simp add: complete_def)
qed

lemma correct_growth_Inr:
  assumes "correct_growth pf t_rate t_growth = Inr c"
  shows "\<exists>rate x. t_rate = Some rate \<and> pf (butlast rate) = Inr x \<and>
           (if flt_lt0 x then \<exists>g. t_growth = Some g \<and> c = Some (CHR ''-'' # g)
            else c = t_growth)"
  using assms
  by (auto simp: correct_growth_def split: option.splits sum.splits if_splits)

subsection \<open>\<^verbatim>\<open>find\<close> is the first match in document order\<close>

lemma find_tag_find: "find_tag p n = List.find p (descendants n)"
proof -
  have "(case filter p xs of [] \<Rightarrow> None | x # ys \<Rightarrow> Some x) = List.find p xs" for xs
    by (induction xs) auto
  then show ?thesis by (simp add: find_tag_def find_all_def)
qed

lemma find_green_red_by_marker:
  "map_option get_text (find_green_red g r dd) = by_marker g r dd"
  by (simp add: find_green_red_def by_marker_def first_with_def find_tag_find split: option.splits)

lemma first_with_None:
  "(first_with c dd = None) = (\<forall>x \<in> set (descendants dd). \<not> has_class ''span'' c x)"
  by (auto simp: first_with_def find_None_iff)

lemma by_marker_None:
  "(by_marker g r dd = None) =
     (\<forall>x \<in> set (descendants dd). \<not> has_class ''span'' g x \<and> \<not> has_class ''span'' r x)"
proof -
  have "(by_marker g r dd = None) = (first_with g dd = None \<and> first_with r dd = None)"
    by (cases "first_with g dd") (simp_all add: by_marker_def)
  then show ?thesis
    unfolding first_with_None by blast
qed

section \<open>What a poll changes\<close>

lemma do_update_data:
  "data (snd (do_update pf get fd)) = data fd \<or>
   (\<exists>soup l. get (url_of (fund_id fd)) = Got soup \<and> tit_ok (get_fund_tit soup) (fund_id fd) \<and>
      analyze pf soup = (l, Inr (data (snd (do_update pf get fd)))))"
  by (auto simp: do_update_def Let_def split: response.splits sum.splits prod.splits)

lemma do_update_fields:
  "fetches (snd (do_update pf get fd)) = fetches fd + 1 \<and>
   interval (snd (do_update pf get fd)) = interval fd \<and>
   last_fetch (snd (do_update pf get fd)) = last_fetch fd \<and>
   fund_id (snd (do_update pf get fd)) = fund_id fd"
  by (auto simp: do_update_def Let_def split: response.splits sum.splits prod.splits)

lemma do_update_data_ok:
  assumes "data_ok fd"
  shows "data_ok (snd (do_update pf get fd))"
proof -
  from do_update_data [of pf get fd] show ?thesis
  proof
    assume "data (snd (do_update pf get fd)) = data fd"
    with assms show ?thesis by (simp add: data_ok_def)
  next
    assume "\<exists>soup l. get (url_of (fund_id fd)) = Got soup \<and> tit_ok (get_fund_tit soup) (fund_id fd) \<and>
      analyze pf soup = (l, Inr (data (snd (do_update pf get fd))))"
    then obtain soup l where a: "analyze pf soup = (l, Inr (data (snd (do_update pf get fd))))"
      by blast
    show ?thesis
    proof (cases "data (snd (do_update pf get fd))")
      case None
      then show ?thesis by (simp add: data_ok_def)
    next
      case (Some s)
      with a analyze_complete [of pf soup l s] show ?thesis by (simp add: data_ok_def)
    qed
  qed
qed

lemma update_throttled: "throttled fd now \<Longrightarrow> update pf get now fd = (None, fd)"
  by (simp add: update_def)

lemma update_run:
  assumes "\<not> throttled fd now"
  shows "fetches (snd (update pf get now fd)) = fetches fd + 1 \<and>
         interval (snd (update pf get now fd)) = interval fd \<and>
         last_fetch (snd (update pf get now fd)) = Some now \<and>
         fund_id (snd (update pf get now fd)) = fund_id fd"
proof -
  obtain e fd' where d: "do_update pf get fd = (e, fd')" by (cases "do_update pf get fd")
  with do_update_fields [of pf get fd] assms show ?thesis
    by (simp add: update_def)
qed

lemma update_data_ok:
  assumes "data_ok fd"
  shows "data_ok (snd (update pf get now fd))"
proof (cases "throttled fd now")
  case True
  with assms show ?thesis by (simp add: update_def)
next
  case False
  have "data (snd (update pf get now fd)) = data (snd (do_update pf get fd))"
    using False by (simp add: update_def split: prod.splits)
  with do_update_data_ok [OF assms, of pf get] show ?thesis
    by (simp add: data_ok_def)
qed

lemma polls_data_ok: "data_ok fd \<Longrightarrow> data_ok (polls pf ps fd)"
  by (induction ps arbitrary: fd) (auto simp: update_data_ok)

lemma init_data_ok: "data_ok (EastmoneyData fid iv)"
  by (simp add: data_ok_def EastmoneyData_def)

lemma init_not_throttled: "\<not> throttled (EastmoneyData fid iv) now"
  by (simp add: throttled_def EastmoneyData_def)

section \<open>Splitting the title\<close>

lemma split_on_notin: "c \<notin> set s \<Longrightarrow> split_on c s = [s]"
  by (induction s) auto

lemma split_on_length_in: "c \<in> set s \<Longrightarrow> 2 \<le> length (split_on c s)"
proof (induction s)
  case Nil
  then show ?case by simp
next
  case (Cons x xs)
  have ne: "split_on c ys \<noteq> []" for ys by (cases ys) auto
  show ?case
  proof (cases "x = c")
    case True
    with ne [of xs] show ?thesis by (cases "split_on c xs") auto
  next
    case False
    with Cons have "2 \<le> length (split_on c xs)" by simp
    with False show ?thesis by (cases "split_on c xs") auto
  qed
qed

lemma split_on_in:
  "c \<in> set s \<Longrightarrow>
   split_on c s = takeWhile (\<lambda>x. x \<noteq> c) s # split_on c (tl (dropWhile (\<lambda>x. x \<noteq> c) s))"
  by (induction s) auto

lemma split_on_two:
  assumes "length (split_on c s) = 2" and "split_on c s ! 1 = b"
  shows "split_first c s = Some (takeWhile (\<lambda>x. x \<noteq> c) s, b)"
proof -
  have cin: "c \<in> set s"
    using assms(1) split_on_notin [of c s] by (cases "c \<in> set s") auto
  let ?rest = "tl (dropWhile (\<lambda>x. x \<noteq> c) s)"
  from split_on_in [OF cin] assms(1) have len: "length (split_on c ?rest) = 1" by simp
  have "c \<notin> set ?rest"
    using len split_on_length_in [of c ?rest] by (cases "c \<in> set ?rest") auto
  then have "split_on c ?rest = [?rest]" by (rule split_on_notin)
  with split_on_in [OF cin] assms(2) have "b = ?rest" by simp
  with cin show ?thesis by (simp add: split_first_def)
qed

lemma split_first_two:
  assumes "split_first c s = Some (a, b)" and "c \<notin> set b"
  shows "split_on c s = [a, b]"
proof -
  from assms(1) have cin: "c \<in> set s" and a: "a = takeWhile (\<lambda>x. x \<noteq> c) s"
    and b: "b = tl (dropWhile (\<lambda>x. x \<noteq> c) s)"
    by (auto simp: split_first_def split: if_splits)
  from split_on_in [OF cin] a b split_on_notin [OF assms(2)] show ?thesis by simp
qed

lemma tit_ok_title_second:
  assumes "tit_ok (get_fund_tit soup) fid"
  shows "title_second soup = Some fid"
proof -
  from assms obtain t where t: "title_text soup = Some t"
    and len: "length (split_on CHR ''('' t) = 2" and snd: "split_on CHR ''('' t ! 1 = fid"
    by (auto simp: tit_ok_def get_fund_tit_def title_text_def split: option.splits)
  from split_on_two [OF len snd] t show ?thesis by (simp add: title_second_def)
qed

lemma title_second_tit_ok:
  assumes "title_second soup = Some fid" and "CHR ''('' \<notin> set fid"
  shows "tit_ok (get_fund_tit soup) fid"
proof -
  from assms(1) obtain t a where t: "title_text soup = Some t"
    and sf: "split_first CHR ''('' t = Some (a, fid)"
    by (auto simp: title_second_def split: option.splits)
  from t have "get_fund_tit soup = Some (split_on CHR ''('' t)"
    by (auto simp: get_fund_tit_def title_text_def split: option.splits)
  with split_first_two [OF sf assms(2)] show ?thesis by (simp add: tit_ok_def)
qed

section \<open>The class strings of the markers\<close>

text \<open>
  The parser splits a \<^verbatim>\<open>class\<close> attribute at blanks, so no token holds a blank.
  Against such tokens each of the four class strings of the module matches exactly
  one list of tokens.
\<close>

lemma split_on_token:
  "c \<notin> set w \<Longrightarrow> split_on c (w @ c # rest) = w # split_on c rest"
  by (induction w) auto

lemma split_on_join_sp:
  "cls \<noteq> [] \<Longrightarrow> \<forall>t \<in> set cls. CHR '' '' \<notin> set t \<Longrightarrow>
   split_on CHR '' '' (join_sp cls) = cls"
proof (induction cls rule: join_sp.induct)
  case 1
  then show ?case by simp
next
  case (2 w)
  then show ?case by (simp add: split_on_notin)
next
  case (3 w v ws)
  then have "split_on CHR '' '' (join_sp (v # ws)) = v # ws" by simp
  moreover from 3 have "CHR '' '' \<notin> set w" by simp
  ultimately show ?case
    using split_on_token [of "CHR '' ''" w "join_sp (v # ws)"] by simp
qed

lemma class_matches_exact:
  assumes "\<forall>t \<in> set cls. CHR '' '' \<notin> set t" and "CHR '' '' \<in> set c"
  shows "class_matches c cls = (cls \<noteq> [] \<and> join_sp cls = c)"
  using assms by (auto simp: class_matches_def)

lemma marker_tokens:
  assumes "\<forall>t \<in> set cls. CHR '' '' \<notin> set t"
  shows "class_matches green_middle cls = (cls = [''ui-font-middle'', ''ui-color-green'', ''ui-num''])"
    and "class_matches red_middle cls = (cls = [''ui-font-middle'', ''ui-color-red'', ''ui-num''])"
    and "class_matches green_large cls = (cls = [''ui-font-large'', ''ui-color-green'', ''ui-num''])"
    and "class_matches red_large cls = (cls = [''ui-font-large'', ''ui-color-red'', ''ui-num''])"
proof -
  have key: "class_matches c cls = (cls = ws)"
    if "CHR '' '' \<in> set c" "\<forall>t \<in> set ws. CHR '' '' \<notin> set t" "join_sp ws = c" "ws \<noteq> []"
    for c ws
  proof
    assume "class_matches c cls"
    with class_matches_exact [OF assms that(1)] have ne: "cls \<noteq> []" and j: "join_sp cls = c"
      by simp_all
    from split_on_join_sp [OF ne assms] split_on_join_sp [OF that(4) that(2)] j that(3)
    show "cls = ws" by simp
  next
    assume "cls = ws"
    with class_matches_exact [OF assms that(1)] that(3,4) show "class_matches c cls" by simp
  qed
  show "class_matches green_middle cls = (cls = [''ui-font-middle'', ''ui-color-green'', ''ui-num''])"
    by (rule key) (simp_all add: green_middle_def)
  show "class_matches red_middle cls = (cls = [''ui-font-middle'', ''ui-color-red'', ''ui-num''])"
    by (rule key) (simp_all add: red_middle_def)
  show "class_matches green_large cls = (cls = [''ui-font-large'', ''ui-color-green'', ''ui-num''])"
    by (rule key) (simp_all add: green_large_def)
  show "class_matches red_large cls = (cls = [''ui-font-large'', ''ui-color-red'', ''ui-num''])"
    by (rule key) (simp_all add: red_large_def)
qed

lemma has_class_marker:
  assumes "\<forall>t \<in> set cls. CHR '' '' \<notin> set t"
  shows "has_class ''span'' green_middle (Tag n i cls ks) =
           (n = ''span'' \<and> cls = [''ui-font-middle'', ''ui-color-green'', ''ui-num'']) \<and>
         has_class ''span'' red_middle (Tag n i cls ks) =
           (n = ''span'' \<and> cls = [''ui-font-middle'', ''ui-color-red'', ''ui-num'']) \<and>
         has_class ''span'' green_large (Tag n i cls ks) =
           (n = ''span'' \<and> cls = [''ui-font-large'', ''ui-color-green'', ''ui-num'']) \<and>
         has_class ''span'' red_large (Tag n i cls ks) =
           (n = ''span'' \<and> cls = [''ui-font-large'', ''ui-color-red'', ''ui-num''])"
  using marker_tokens [OF assms] by simp

section \<open>The properties\<close>

subsection \<open>C1: a poll that fails after the identity check\<close>

text \<open>
  C1 says that a poll which passes the title check and then fails leaves the stored
  snapshot as it was. The module assigns the result of \<^verbatim>\<open>_analyze\<close> to
  \<^verbatim>\<open>self.data\<close> whatever it is: a first poll of a complete page stores a snapshot,
  and a second poll of a page with the right title and no \<^verbatim>\<open>fundInfoItem\<close> region
  logs the missing region and replaces the snapshot by \<^verbatim>\<open>None\<close>.
\<close>

theorem failed_poll_clears_snapshot:
  "do_update dec_float (serve ''000001'' page_ok) (EastmoneyData ''000001'' 900) =
     (None, \<lparr>fund_id = ''000001'', data = Some snapshot_ok, interval = 900, last_fetch = None,
             fetches = 1, logged = []\<rparr>) \<and>
   do_update dec_float (serve ''000001'' (title_page ''(000001''))
     \<lparr>fund_id = ''000001'', data = Some snapshot_ok, interval = 900, last_fetch = None,
      fetches = 1, logged = []\<rparr> =
     (None, \<lparr>fund_id = ''000001'', data = None, interval = 900, last_fetch = None,
             fetches = 2, logged = [FundInfoItem_not_found]\<rparr>)"
  by code_simp

subsection \<open>C2: exceptions that leave \<^verbatim>\<open>update\<close>\<close>

text \<open>
  C2 says that no exception leaves \<^verbatim>\<open>update\<close>, and that a settled region whose
  \<^verbatim>\<open>dt\<close> holds no date is a logged structural error. On a page with the right
  title whose \<^verbatim>\<open>dt\<close> reads "NAV", \<^verbatim>\<open>re.findall(...)[0]\<close> raises IndexError, which
  nothing catches: it leaves \<^verbatim>\<open>_update\<close> and \<^verbatim>\<open>update\<close>, and nothing is logged.
  A page without the rate element raises TypeError at line 213 in the same way.
\<close>

theorem unmatched_date_raises:
  "do_update dec_float (serve ''000001'' page_no_date) (EastmoneyData ''000001'' 900) =
     (Some IndexError, \<lparr>fund_id = ''000001'', data = None, interval = 900, last_fetch = None,
             fetches = 1, logged = []\<rparr>) \<and>
   fst (update dec_float (serve ''000001'' page_no_date) 0 (EastmoneyData ''000001'' 900)) =
     Some IndexError \<and>
   fst (update dec_float (serve ''000001'' page_no_rate) 0 (EastmoneyData ''000001'' 900)) =
     Some TypeError"
  by code_simp

subsection \<open>C3: the sign of the estimate's change\<close>

text \<open>
  C3: whenever \<^verbatim>\<open>_get_estnav\<close> returns a dictionary, the rate it read parses as a
  number, and the stored change is the change of the markup with a minus sign in
  front exactly when that number is negative, and the change of the markup itself
  otherwise. The figures of the settled region are stored as they are read.
\<close>

theorem sign_correction:
  "(get_estnav pf d = (l, Inr (Some e)) \<longrightarrow>
      (\<exists>rate x. text_by_id ''gz_gszzl'' (dd_of d 0) = Some rate \<and> enav_rate e = Some rate \<and>
         pf (butlast rate) = Inr x \<and>
         (if flt_lt0 x
          then \<exists>g. text_by_id ''gz_gszze'' (dd_of d 0) = Some g \<and>
                 enav_growth e = Some (CHR ''-'' # g)
          else enav_growth e = text_by_id ''gz_gszze'' (dd_of d 0)))) \<and>
   (get_nav d' = (l', Inr (Some n)) \<longrightarrow>
      nav_value n = map_option get_text (find_green_red green_large red_large (dd_of d' 0)) \<and>
      nav_rate n = map_option get_text (find_green_red green_middle red_middle (dd_of d' 0)) \<and>
      rct_3month n = map_option get_text (find_tag (has_class ''span'' green_middle) (dd_of d' 1)) \<and>
      rct_3year n = map_option get_text (find_tag (has_class ''span'' red_middle) (dd_of d' 2)))"
proof (intro conjI impI)
  assume a: "get_estnav pf d = (l, Inr (Some e))"
  from get_estnav_Some [OF a] have
    r: "enav_rate e = text_by_id ''gz_gszzl'' (dd_of d 0)" and
    c: "correct_growth pf (text_by_id ''gz_gszzl'' (dd_of d 0))
            (text_by_id ''gz_gszze'' (dd_of d 0)) = Inr (enav_growth e)"
    by blast+
  from correct_growth_Inr [OF c] r
  show "\<exists>rate x. text_by_id ''gz_gszzl'' (dd_of d 0) = Some rate \<and> enav_rate e = Some rate \<and>
         pf (butlast rate) = Inr x \<and>
         (if flt_lt0 x
          then \<exists>g. text_by_id ''gz_gszze'' (dd_of d 0) = Some g \<and>
                 enav_growth e = Some (CHR ''-'' # g)
          else enav_growth e = text_by_id ''gz_gszze'' (dd_of d 0))"
    by auto
next
  assume a: "get_nav d' = (l', Inr (Some n))"
  from get_nav_Some [OF a]
  show "nav_value n = map_option get_text (find_green_red green_large red_large (dd_of d' 0))"
       "nav_rate n = map_option get_text (find_green_red green_middle red_middle (dd_of d' 0))"
       "rct_3month n = map_option get_text (find_tag (has_class ''span'' green_middle) (dd_of d' 1))"
       "rct_3year n = map_option get_text (find_tag (has_class ''span'' red_middle) (dd_of d' 2))"
    by blast+
qed

text \<open>
  The change "5" with the rate "-1.2%" is stored as "-5", and with the rate "+1.2%"
  as "5"; the settled figures are the texts of the markup.
\<close>

theorem sign_correction_witness:
  "get_estnav dec_float (est_region (est_dd0 ''5'' ''-1.2%'')) =
     ([], Inr (Some (estnav_of ''-5'' ''-1.2%''))) \<and>
   enav_growth (estnav_of ''-5'' ''-1.2%'') = Some ''-5'' \<and>
   get_estnav dec_float (est_region (est_dd0 ''5'' ''+1.2%'')) =
     ([], Inr (Some (estnav_of ''5'' ''+1.2%''))) \<and>
   enav_growth (estnav_of ''5'' ''+1.2%'') = Some ''5'' \<and>
   get_nav (nav_region ''NAV (2023-5-9)'') = ([], Inr (Some navrec_ok)) \<and>
   nav_rate navrec_ok = Some ''0.35%'' \<and> nav_value navrec_ok = Some ''1.200''"
proof -
  let ?neg = "est_region (est_dd0 ''5'' ''-1.2%'')"
  let ?pos = "est_region (est_dd0 ''5'' ''+1.2%'')"
  let ?nav = "nav_region ''NAV (2023-5-9)''"
  have a: "get_estnav dec_float ?neg = ([], Inr (Some (estnav_of ''-5'' ''-1.2%'')))"
    by code_simp
  have b: "get_estnav dec_float ?pos = ([], Inr (Some (estnav_of ''5'' ''+1.2%'')))"
    by code_simp
  have c: "get_nav ?nav = ([], Inr (Some navrec_ok))"
    by code_simp
  have ra: "text_by_id ''gz_gszzl'' (dd_of ?neg 0) = Some ''-1.2%''"
    and ga: "text_by_id ''gz_gszze'' (dd_of ?neg 0) = Some ''5''"
    and rb: "text_by_id ''gz_gszzl'' (dd_of ?pos 0) = Some ''+1.2%''"
    and gb: "text_by_id ''gz_gszze'' (dd_of ?pos 0) = Some ''5''"
    by code_simp+
  have fa: "dec_float ''-1.2'' = Inr (Finite (- 6 / 5))"
    and fb: "dec_float ''+1.2'' = Inr (Finite (6 / 5))"
    by (simp_all add: dec_float_def dec_val_def digit_val_def digit_def)
  have va: "map_option get_text (find_green_red green_large red_large (dd_of ?nav 0)) = Some ''1.200''"
    and vb: "map_option get_text (find_green_red green_middle red_middle (dd_of ?nav 0)) = Some ''0.35%''"
    by code_simp+
  from sign_correction [of dec_float ?neg "[]" "estnav_of ''-5'' ''-1.2%''" ?nav "[]" navrec_ok]
    a c ra ga fa va vb
  have 1: "enav_growth (estnav_of ''-5'' ''-1.2%'') = Some ''-5'' \<and>
           nav_rate navrec_ok = Some ''0.35%'' \<and> nav_value navrec_ok = Some ''1.200''"
    by auto
  from sign_correction [of dec_float ?pos "[]" "estnav_of ''5'' ''+1.2%''" ?nav "[]" navrec_ok]
    b c rb gb fb
  have 2: "enav_growth (estnav_of ''5'' ''+1.2%'') = Some ''5''"
    by auto
  from a b c 1 2 show ?thesis by blast
qed

subsection \<open>C4: how the figures are selected\<close>

text \<open>
  C4 says that every figure is selected by one of two markers and is unset when
  neither is present. The headline value and the rate of the estimate are set on a
  page whose first \<^verbatim>\<open>dd\<close> carries neither marker: the module selects them by id.
\<close>

theorem marker_absent_counterexample:
  "get_estnav dec_float (est_region (est_dd0 ''5'' ''-1.2%'')) =
     ([], Inr (Some (estnav_of ''-5'' ''-1.2%''))) \<and>
   enav (estnav_of ''-5'' ''-1.2%'') = Some ''1.234'' \<and>
   enav_rate (estnav_of ''-5'' ''-1.2%'') = Some ''-1.2%'' \<and>
   by_marker green_large red_large (dd_of (est_region (est_dd0 ''5'' ''-1.2%'')) 0) = None \<and>
   by_marker green_middle red_middle (dd_of (est_region (est_dd0 ''5'' ''-1.2%'')) 0) = None"
  by code_simp

text \<open>
  C4 as amended: in the estimate region the headline value, the change and the rate
  are the texts of the spans with the ids \<^verbatim>\<open>gz_gsz\<close>, \<^verbatim>\<open>gz_gszze\<close> (with the minus
  sign of C3, if any) and \<^verbatim>\<open>gz_gszzl\<close> of the first \<^verbatim>\<open>dd\<close>, whatever class they
  carry. Four other figures are selected by a lookup over two markers, a marker being
  a \<^verbatim>\<open>span\<close> whose class attribute is exactly one string of three tokens. For the
  trailing figures of the estimate (second and third \<^verbatim>\<open>dd\<close>) and for the rate of the
  settled region (first \<^verbatim>\<open>dd\<close>) the strings are
  \<^verbatim>\<open>ui-font-middle ui-color-green ui-num\<close> and \<^verbatim>\<open>ui-font-middle ui-color-red ui-num\<close>;
  for the headline value of the settled region (first \<^verbatim>\<open>dd\<close>) they are
  \<^verbatim>\<open>ui-font-large ui-color-green ui-num\<close> and \<^verbatim>\<open>ui-font-large ui-color-red ui-num\<close>.
  The figure is the text of the first span below the \<^verbatim>\<open>dd\<close>, in document order, with
  the green string; when there is none, of the first span with the red string; and it
  is unset exactly when no span below the \<^verbatim>\<open>dd\<close> has either string.
\<close>

theorem marker_selection:
  "(get_estnav pf d = (l, Inr (Some e)) \<longrightarrow>
      enav e = text_by_id ''gz_gsz'' (dd_of d 0) \<and>
      enav_rate e = text_by_id ''gz_gszzl'' (dd_of d 0) \<and>
      (enav_growth e = text_by_id ''gz_gszze'' (dd_of d 0) \<or>
       (\<exists>g. text_by_id ''gz_gszze'' (dd_of d 0) = Some g \<and> enav_growth e = Some (CHR ''-'' # g))) \<and>
      rct_1month e = by_marker green_middle red_middle (dd_of d 1) \<and>
      rct_1year e = by_marker green_middle red_middle (dd_of d 2)) \<and>
   (get_nav d' = (l', Inr (Some n)) \<longrightarrow>
      nav_value n = by_marker green_large red_large (dd_of d' 0) \<and>
      nav_rate n = by_marker green_middle red_middle (dd_of d' 0)) \<and>
   (by_marker g r dd = None) =
     (\<forall>x \<in> set (descendants dd). \<not> has_class ''span'' g x \<and> \<not> has_class ''span'' r x) \<and>
   ((\<forall>t \<in> set cls. CHR '' '' \<notin> set t) \<longrightarrow>
      has_class ''span'' green_middle (Tag nm i cls ks) =
        (nm = ''span'' \<and> cls = [''ui-font-middle'', ''ui-color-green'', ''ui-num'']) \<and>
      has_class ''span'' red_middle (Tag nm i cls ks) =
        (nm = ''span'' \<and> cls = [''ui-font-middle'', ''ui-color-red'', ''ui-num'']) \<and>
      has_class ''span'' green_large (Tag nm i cls ks) =
        (nm = ''span'' \<and> cls = [''ui-font-large'', ''ui-color-green'', ''ui-num'']) \<and>
      has_class ''span'' red_large (Tag nm i cls ks) =
        (nm = ''span'' \<and> cls = [''ui-font-large'', ''ui-color-red'', ''ui-num'']))"
proof -
  have est: "enav e = text_by_id ''gz_gsz'' (dd_of d 0) \<and>
      enav_rate e = text_by_id ''gz_gszzl'' (dd_of d 0) \<and>
      (enav_growth e = text_by_id ''gz_gszze'' (dd_of d 0) \<or>
       (\<exists>g. text_by_id ''gz_gszze'' (dd_of d 0) = Some g \<and> enav_growth e = Some (CHR ''-'' # g))) \<and>
      rct_1month e = by_marker green_middle red_middle (dd_of d 1) \<and>
      rct_1year e = by_marker green_middle red_middle (dd_of d 2)"
    if a: "get_estnav pf d = (l, Inr (Some e))"
  proof -
    from get_estnav_Some [OF a] have
      c: "correct_growth pf (text_by_id ''gz_gszzl'' (dd_of d 0))
              (text_by_id ''gz_gszze'' (dd_of d 0)) = Inr (enav_growth e)"
      by blast
    from correct_growth_Inr [OF c]
    have g: "enav_growth e = text_by_id ''gz_gszze'' (dd_of d 0) \<or>
         (\<exists>g. text_by_id ''gz_gszze'' (dd_of d 0) = Some g \<and> enav_growth e = Some (CHR ''-'' # g))"
      by (auto split: if_splits)
    from get_estnav_Some [OF a]
    have "enav e = text_by_id ''gz_gsz'' (dd_of d 0)"
         "enav_rate e = text_by_id ''gz_gszzl'' (dd_of d 0)"
         "rct_1month e = by_marker green_middle red_middle (dd_of d 1)"
         "rct_1year e = by_marker green_middle red_middle (dd_of d 2)"
      by (simp_all add: find_green_red_by_marker)
    with g show ?thesis by blast
  qed
  have settled: "nav_value n = by_marker green_large red_large (dd_of d' 0) \<and>
      nav_rate n = by_marker green_middle red_middle (dd_of d' 0)"
    if a: "get_nav d' = (l', Inr (Some n))"
    using get_nav_Some [OF a] by (simp add: find_green_red_by_marker)
  from est settled by_marker_None [of g r dd] has_class_marker [of cls nm i ks]
  show ?thesis by blast
qed

text \<open>
  In the first \<^verbatim>\<open>dd\<close> of the settled region the span with the large red string reads
  "1.200" and the span with the middle red string reads "0.35%": the first is the
  headline value and is not a marker of the rate, the second is the rate.
\<close>

theorem marker_selection_witness:
  "get_estnav dec_float (est_region (est_dd0 ''5'' ''-1.2%'')) =
     ([], Inr (Some (estnav_of ''-5'' ''-1.2%''))) \<and>
   text_by_id ''gz_gsz'' (dd_of (est_region (est_dd0 ''5'' ''-1.2%'')) 0) = Some ''1.234'' \<and>
   by_marker green_middle red_middle (dd_of (est_region (est_dd0 ''5'' ''-1.2%'')) 1) = Some ''-2.10%'' \<and>
   by_marker green_middle red_middle (dd_of (est_region (est_dd0 ''5'' ''-1.2%'')) 2) = Some ''10.52%'' \<and>
   get_nav (nav_region ''NAV (2023-5-9)'') = ([], Inr (Some navrec_ok)) \<and>
   by_marker green_large red_large (dd_of (nav_region ''NAV (2023-5-9)'') 0) = Some ''1.200'' \<and>
   by_marker green_middle red_middle (dd_of (nav_region ''NAV (2023-5-9)'') 0) = Some ''0.35%'' \<and>
   list_all (\<lambda>t. CHR '' '' \<notin> set t) [''ui-font-large'', ''ui-color-red'', ''ui-num''] \<and>
   has_class ''span'' red_large (span_cls [''ui-font-large'', ''ui-color-red'', ''ui-num''] ''1.200'') \<and>
   \<not> has_class ''span'' red_middle (span_cls [''ui-font-large'', ''ui-color-red'', ''ui-num''] ''1.200'')"
proof -
  let ?est = "est_region (est_dd0 ''5'' ''-1.2%'')"
  let ?nav = "nav_region ''NAV (2023-5-9)''"
  let ?cls = "[''ui-font-large'', ''ui-color-red'', ''ui-num'']"
  have a: "get_estnav dec_float ?est = ([], Inr (Some (estnav_of ''-5'' ''-1.2%'')))"
    by code_simp
  have c: "get_nav ?nav = ([], Inr (Some navrec_ok))"
    by code_simp
  have t: "\<forall>t \<in> set ?cls. CHR '' '' \<notin> set t" by simp
  from marker_selection [of dec_float ?est "[]" "estnav_of ''-5'' ''-1.2%''" ?nav "[]" navrec_ok
      _ _ _ ?cls "''span''" None "[Text ''1.200'']"]
    a c t
  show ?thesis
    by (simp add: estnav_of_def navrec_ok_def span_cls_def)
qed

subsection \<open>C5: the throttle\<close>

text \<open>
  C5: when a call of \<^verbatim>\<open>update\<close> that is due is followed by a call less than the
  interval later, the first call fetches once and the second returns at once, with no
  fetch and the object unchanged. Two calls less than the interval apart never fetch
  more than once. A call that comes the interval or more after the call before it
  fetches.
\<close>

theorem throttle_pair:
  "(\<not> throttled fd t1 \<and> t2 - t1 < interval fd \<longrightarrow>
      fetches (snd (update pf g1 t1 fd)) = fetches fd + 1 \<and>
      update pf g2 t2 (snd (update pf g1 t1 fd)) = (None, snd (update pf g1 t1 fd))) \<and>
   (t2 - t1 < interval fd \<longrightarrow>
      fetches (snd (update pf g2 t2 (snd (update pf g1 t1 fd)))) \<le> fetches fd + 1) \<and>
   ((case last_fetch fd of None \<Rightarrow> True | Some t \<Rightarrow> t \<le> t1) \<and> interval fd \<le> t2 - t1 \<longrightarrow>
      fetches (snd (update pf g2 t2 (snd (update pf g1 t1 fd)))) =
        fetches (snd (update pf g1 t1 fd)) + 1)"
proof -
  let ?fd1 = "snd (update pf g1 t1 fd)"
  have within: "fetches ?fd1 = fetches fd + 1 \<and> update pf g2 t2 ?fd1 = (None, ?fd1)"
    if "\<not> throttled fd t1" "t2 - t1 < interval fd"
  proof -
    from update_run [OF that(1), of pf g1] that(2) have "throttled ?fd1 t2"
      by (simp add: throttled_def)
    with update_run [OF that(1), of pf g1] update_throttled [of ?fd1 t2 pf g2]
    show ?thesis by simp
  qed
  have atmost: "fetches (snd (update pf g2 t2 ?fd1)) \<le> fetches fd + 1"
    if "t2 - t1 < interval fd"
  proof (cases "throttled fd t1")
    case False
    from within [OF False that] show ?thesis by simp
  next
    case True
    then have same: "?fd1 = fd" by (simp add: update_def)
    show ?thesis
    proof (cases "throttled fd t2")
      case True
      with same show ?thesis by (simp add: update_def)
    next
      case False
      from update_run [OF False, of pf g2] same show ?thesis by simp
    qed
  qed
  have beyond: "fetches (snd (update pf g2 t2 ?fd1)) = fetches ?fd1 + 1"
    if "case last_fetch fd of None \<Rightarrow> True | Some t \<Rightarrow> t \<le> t1" "interval fd \<le> t2 - t1"
  proof -
    have "\<not> throttled ?fd1 t2"
    proof (cases "throttled fd t1")
      case True
      then have same: "?fd1 = fd" by (simp add: update_def)
      from True that show ?thesis
        unfolding same by (auto simp: throttled_def split: option.splits)
    next
      case False
      from update_run [OF False, of pf g1] that(2) show ?thesis
        by (simp add: throttled_def)
    qed
    from update_run [OF this, of pf g2] show ?thesis by simp
  qed
  from within atmost beyond show ?thesis by blast
qed

theorem throttle_pair_witness:
  "\<not> throttled (EastmoneyData ''000001'' 900) 0 \<and>
   (899 :: int) - 0 < interval (EastmoneyData ''000001'' 900) \<and>
   fetches (snd (update dec_float (serve ''000001'' page_ok) 0 (EastmoneyData ''000001'' 900))) = 1 \<and>
   update dec_float (serve ''000001'' page_ok) 899
       (snd (update dec_float (serve ''000001'' page_ok) 0 (EastmoneyData ''000001'' 900))) =
     (None, snd (update dec_float (serve ''000001'' page_ok) 0 (EastmoneyData ''000001'' 900))) \<and>
   interval (EastmoneyData ''000001'' 900) \<le> 900 - 0 \<and>
   fetches (snd (update dec_float (serve ''000001'' page_ok) 900
       (snd (update dec_float (serve ''000001'' page_ok) 0 (EastmoneyData ''000001'' 900))))) = 2"
proof -
  let ?fd = "EastmoneyData ''000001'' 900"
  let ?g = "serve ''000001'' page_ok"
  have h: "\<not> throttled ?fd 0" "(899 :: int) - 0 < interval ?fd" "interval ?fd \<le> 900 - 0"
    "(case last_fetch ?fd of None \<Rightarrow> True | Some t \<Rightarrow> t \<le> 0)" "fetches ?fd = 0"
    by (simp_all add: throttled_def EastmoneyData_def)
  from throttle_pair [of ?fd 0 899 dec_float ?g ?g] h
  have 1: "fetches (snd (update dec_float ?g 0 ?fd)) = 1 \<and>
           update dec_float ?g 899 (snd (update dec_float ?g 0 ?fd)) =
             (None, snd (update dec_float ?g 0 ?fd))"
    by simp
  from throttle_pair [of ?fd 0 900 dec_float ?g ?g] h 1
  have 2: "fetches (snd (update dec_float ?g 900 (snd (update dec_float ?g 0 ?fd)))) = 2"
    by simp
  from h 1 2 show ?thesis by blast
qed

subsection \<open>C6: the indicator and its icon\<close>

text \<open>
  C6: when the fetcher's \<^verbatim>\<open>update\<close> returns and holds a snapshot whose change reads
  as the number \<open>r\<close>, \<^verbatim>\<open>EastmoneySensor.update\<close> stores the estimate's value and sets
  the indicator to 1, -1 or 0 as \<open>r\<close> is positive, negative or zero; the icon is then
  the upward, the downward or the neutral one. A new entity shows the downward icon.
\<close>

theorem indicator_mapping:
  assumes "update pf get now (fund_data s) = (None, fd)"
      and "data fd = Some d"
      and "enav_growth (est_nav d) = Some g"
      and "pf g = Inr (Finite r)"
  shows "sensor_update pf get now s =
           (None, s\<lparr>fund_data := fd, state := enav (est_nav d),
                    trend := (if 0 < r then 1 else if r < 0 then - 1 else 0)\<rparr>) \<and>
         icon (snd (sensor_update pf get now s)) =
           (if 0 < r then ''mdi:trending-up''
            else if r < 0 then ''mdi:trending-down''
            else ''mdi:trending-neutral'') \<and>
         icon (EastmoneySensor fd0 nm) = ''mdi:trending-down''"
  using assms
  by (simp add: sensor_update_def float_of_def trend_of_def icon_def EastmoneySensor_def)

theorem indicator_mapping_witness:
  "update dec_float (serve ''000001'' (page_of ''5'' ''+1.2%'')) 0 (EastmoneyData ''000001'' 900) =
     (None, fetcher_with (snapshot_of ''5'' ''+1.2%'')) \<and>
   dec_float ''5'' = Inr (Finite 5) \<and>
   icon (snd (sensor_update dec_float (serve ''000001'' (page_of ''5'' ''+1.2%'')) 0
     (EastmoneySensor (EastmoneyData ''000001'' 900) ''Fund''))) = ''mdi:trending-up'' \<and>
   update dec_float (serve ''000001'' (page_of ''5'' ''-1.2%'')) 0 (EastmoneyData ''000001'' 900) =
     (None, fetcher_with (snapshot_of ''-5'' ''-1.2%'')) \<and>
   dec_float ''-5'' = Inr (Finite (- 5)) \<and>
   icon (snd (sensor_update dec_float (serve ''000001'' (page_of ''5'' ''-1.2%'')) 0
     (EastmoneySensor (EastmoneyData ''000001'' 900) ''Fund''))) = ''mdi:trending-down'' \<and>
   update dec_float (serve ''000001'' (page_of ''0.0000'' ''0.00%'')) 0 (EastmoneyData ''000001'' 900) =
     (None, fetcher_with (snapshot_of ''0.0000'' ''0.00%'')) \<and>
   dec_float ''0.0000'' = Inr (Finite 0) \<and>
   icon (snd (sensor_update dec_float (serve ''000001'' (page_of ''0.0000'' ''0.00%'')) 0
     (EastmoneySensor (EastmoneyData ''000001'' 900) ''Fund''))) = ''mdi:trending-neutral''"
proof -
  let ?s = "EastmoneySensor (EastmoneyData ''000001'' 900) ''Fund''"
  have fd: "fund_data ?s = EastmoneyData ''000001'' 900" by (simp add: EastmoneySensor_def)
  have u: "update dec_float (serve ''000001'' (page_of ''5'' ''+1.2%'')) 0 (EastmoneyData ''000001'' 900) =
             (None, fetcher_with (snapshot_of ''5'' ''+1.2%''))"
    and d: "update dec_float (serve ''000001'' (page_of ''5'' ''-1.2%'')) 0 (EastmoneyData ''000001'' 900) =
             (None, fetcher_with (snapshot_of ''-5'' ''-1.2%''))"
    and z: "update dec_float (serve ''000001'' (page_of ''0.0000'' ''0.00%'')) 0 (EastmoneyData ''000001'' 900) =
             (None, fetcher_with (snapshot_of ''0.0000'' ''0.00%''))"
    by code_simp+
  have f: "dec_float ''5'' = Inr (Finite 5)" "dec_float ''-5'' = Inr (Finite (- 5))"
    "dec_float ''0.0000'' = Inr (Finite 0)"
    by (simp_all add: dec_float_def dec_val_def digit_val_def digit_def)
  have s: "data (fetcher_with x) = Some x" "enav_growth (est_nav (snapshot_of g r)) = Some g" for x g r
    by (simp_all add: fetcher_with_def snapshot_of_def estnav_of_def)
  from indicator_mapping [of dec_float _ 0 ?s, unfolded fd, OF u s(1) s(2) f(1), THEN conjunct2, THEN conjunct1]
  have 1: "icon (snd (sensor_update dec_float (serve ''000001'' (page_of ''5'' ''+1.2%'')) 0 ?s)) =
             ''mdi:trending-up''"
    by simp
  from indicator_mapping [of dec_float _ 0 ?s, unfolded fd, OF d s(1) s(2) f(2), THEN conjunct2, THEN conjunct1]
  have 2: "icon (snd (sensor_update dec_float (serve ''000001'' (page_of ''5'' ''-1.2%'')) 0 ?s)) =
             ''mdi:trending-down''"
    by simp
  from indicator_mapping [of dec_float _ 0 ?s, unfolded fd, OF z s(1) s(2) f(3), THEN conjunct2, THEN conjunct1]
  have 3: "icon (snd (sensor_update dec_float (serve ''000001'' (page_of ''0.0000'' ''0.00%'')) 0 ?s)) =
             ''mdi:trending-neutral''"
    by simp
  from u d z f 1 2 3 show ?thesis by blast
qed

subsection \<open>C7: the identity check\<close>

text \<open>
  C7: for a fetched document, when the title region is absent or the second part of
  its text, split at the first opening parenthesis, is not the fund id, \<^verbatim>\<open>_update\<close>
  logs "Invalid fund id" and changes nothing else; so the snapshot can only change
  when the second part is the fund id. When it is, and the id holds no parenthesis,
  the snapshot becomes what \<^verbatim>\<open>_analyze\<close> returns.
\<close>

theorem identity_check:
  assumes "get (url_of (fund_id fd)) = Got soup"
  shows "(title_second soup \<noteq> Some (fund_id fd) \<longrightarrow>
            do_update pf get fd =
              (None, fd\<lparr>fetches := fetches fd + 1,
                        logged := logged fd @ [Invalid_fund_id (fund_id fd)]\<rparr>)) \<and>
         (data (snd (do_update pf get fd)) \<noteq> data fd \<longrightarrow> title_second soup = Some (fund_id fd)) \<and>
         (title_second soup = Some (fund_id fd) \<and> CHR ''('' \<notin> set (fund_id fd) \<longrightarrow>
            data (snd (do_update pf get fd)) =
              (case snd (analyze pf soup) of Inl e \<Rightarrow> data fd | Inr r \<Rightarrow> r))"
proof -
  have 1: "do_update pf get fd =
              (None, fd\<lparr>fetches := fetches fd + 1,
                        logged := logged fd @ [Invalid_fund_id (fund_id fd)]\<rparr>)"
    if "title_second soup \<noteq> Some (fund_id fd)"
  proof -
    from that tit_ok_title_second [of soup "fund_id fd"]
    have "\<not> tit_ok (get_fund_tit soup) (fund_id fd)" by blast
    with assms show ?thesis by (simp add: do_update_def Let_def)
  qed
  have 2: "title_second soup = Some (fund_id fd)"
    if "data (snd (do_update pf get fd)) \<noteq> data fd"
  proof (rule ccontr)
    assume "title_second soup \<noteq> Some (fund_id fd)"
    from 1 [OF this] that show False by simp
  qed
  have 3: "data (snd (do_update pf get fd)) =
              (case snd (analyze pf soup) of Inl e \<Rightarrow> data fd | Inr r \<Rightarrow> r)"
    if "title_second soup = Some (fund_id fd)" "CHR ''('' \<notin> set (fund_id fd)"
  proof -
    from title_second_tit_ok [OF that] assms show ?thesis
      by (simp add: do_update_def Let_def split: prod.splits sum.splits)
  qed
  from 1 2 3 show ?thesis by blast
qed

text \<open>The title "ABC Fund(000001" against the ids 000002 and 000001.\<close>

theorem identity_check_witness:
  "serve ''000002'' page_ok (url_of (fund_id (EastmoneyData ''000002'' 900))) = Got page_ok \<and>
   title_second page_ok = Some ''000001'' \<and>
   do_update dec_float (serve ''000002'' page_ok) (EastmoneyData ''000002'' 900) =
     (None, \<lparr>fund_id = ''000002'', data = None, interval = 900, last_fetch = None,
             fetches = 1, logged = [Invalid_fund_id ''000002'']\<rparr>) \<and>
   serve ''000001'' page_ok (url_of (fund_id (EastmoneyData ''000001'' 900))) = Got page_ok \<and>
   data (snd (do_update dec_float (serve ''000001'' page_ok) (EastmoneyData ''000001'' 900))) =
     Some snapshot_ok"
proof -
  have g2: "serve ''000002'' page_ok (url_of (fund_id (EastmoneyData ''000002'' 900))) = Got page_ok"
    and g1: "serve ''000001'' page_ok (url_of (fund_id (EastmoneyData ''000001'' 900))) = Got page_ok"
    by (simp_all add: serve_def EastmoneyData_def)
  have t: "title_second page_ok = Some ''000001''" by code_simp
  have a: "analyze dec_float page_ok = ([], Inr (Some snapshot_ok))" by code_simp
  from identity_check [where get = "serve ''000002'' page_ok" and fd = "EastmoneyData ''000002'' 900"
      and soup = page_ok and pf = dec_float, OF g2] t
  have 1: "do_update dec_float (serve ''000002'' page_ok) (EastmoneyData ''000002'' 900) =
     (None, \<lparr>fund_id = ''000002'', data = None, interval = 900, last_fetch = None,
             fetches = 1, logged = [Invalid_fund_id ''000002'']\<rparr>)"
    by (simp add: EastmoneyData_def)
  from identity_check [where get = "serve ''000001'' page_ok" and fd = "EastmoneyData ''000001'' 900"
      and soup = page_ok and pf = dec_float, OF g1] t a
  have 2: "data (snd (do_update dec_float (serve ''000001'' page_ok) (EastmoneyData ''000001'' 900))) =
     Some snapshot_ok"
    by (simp add: EastmoneyData_def)
  from g2 g1 t 1 2 show ?thesis by blast
qed

subsection \<open>C8: snapshots are complete\<close>

text \<open>
  C8: every snapshot that \<^verbatim>\<open>_analyze\<close> returns is complete, and so is the snapshot
  of a fetcher after any run of polls from its creation.
\<close>

theorem snapshot_invariant:
  "(analyze pf soup = (l, Inr (Some s)) \<longrightarrow> complete s) \<and>
   data_ok (polls pf ps (EastmoneyData fid iv))"
  using analyze_complete polls_data_ok init_data_ok by blast

theorem snapshot_invariant_witness:
  "analyze dec_float page_ok = ([], Inr (Some snapshot_ok)) \<and> complete snapshot_ok \<and>
   data_ok (polls dec_float
     [(serve ''000001'' page_ok, 0), (serve ''000001'' (title_page ''(000001''), 900)]
     (EastmoneyData ''000001'' 900))"
proof -
  have a: "analyze dec_float page_ok = ([], Inr (Some snapshot_ok))" by code_simp
  from a snapshot_invariant [of dec_float page_ok "[]" snapshot_ok
      "[(serve ''000001'' page_ok, 0), (serve ''000001'' (title_page ''(000001''), 900)]"
      "''000001''" 900]
  show ?thesis by blast
qed

subsection \<open>C9: \<^verbatim>\<open>setup_platform\<close>\<close>

text \<open>
  C9: \<^verbatim>\<open>setup_platform\<close> fetches exactly once. When the fetcher then holds no
  snapshot, nothing is handed to \<^verbatim>\<open>add_devices\<close> (the call returns \<^verbatim>\<open>False\<close>, or
  the exception of the fetch leaves it); otherwise exactly one entity is handed over,
  and that entity holds this very fetcher as its \<^verbatim>\<open>fund_data\<close>, the configured name
  as its \<^verbatim>\<open>client_name\<close>, no state yet and the indicator -1.
\<close>

theorem setup_registers:
  assumes "setup_platform pf get now cfg = (r, fd, devs)"
  shows "fetches fd = 1 \<and> fund_id fd = conf_fund_id cfg \<and>
         (if data fd = None then devs = [] \<and> (r = Inr (Some False) \<or> (\<exists>e. r = Inl e))
          else devs = [EastmoneySensor fd (conf_name cfg)] \<and> r = Inr None \<and>
               length devs = 1 \<and> fund_data (hd devs) = fd \<and>
               client_name (hd devs) = conf_name cfg \<and>
               state (hd devs) = None \<and> trend (hd devs) = - 1)"
proof -
  let ?fd0 = "EastmoneyData (conf_fund_id cfg) (conf_update_interval cfg)"
  obtain e fd' where u: "update pf get now ?fd0 = (e, fd')" by (cases "update pf get now ?fd0")
  from update_run [OF init_not_throttled, of pf get now "conf_fund_id cfg" "conf_update_interval cfg"] u
  have f: "fetches fd' = 1" "fund_id fd' = conf_fund_id cfg"
    by (simp_all add: EastmoneyData_def)
  have d: "e \<noteq> None \<Longrightarrow> data fd' = None"
    using u do_update_data [of pf get ?fd0] init_not_throttled [of "conf_fund_id cfg" "conf_update_interval cfg" now]
    by (auto simp: update_def EastmoneyData_def do_update_def Let_def
             split: prod.splits response.splits sum.splits if_splits)
  from assms u f d show ?thesis
    by (cases e) (auto simp: setup_platform_def EastmoneySensor_def split: if_splits)
qed

theorem setup_registers_witness:
  "setup_platform dec_float (serve ''000001'' page_ok) 0 config_ok =
     (Inr None, fetcher_with snapshot_ok, [EastmoneySensor (fetcher_with snapshot_ok) ''Fund'']) \<and>
   fetches (fetcher_with snapshot_ok) = 1 \<and>
   data (fetcher_with snapshot_ok) = Some snapshot_ok \<and>
   fund_data (hd [EastmoneySensor (fetcher_with snapshot_ok) ''Fund'']) = fetcher_with snapshot_ok \<and>
   client_name (hd [EastmoneySensor (fetcher_with snapshot_ok) ''Fund'']) = ''Fund'' \<and>
   setup_platform dec_float (serve ''000001'' (title_page ''(000001'')) 0 config_ok =
     (Inr (Some False),
      \<lparr>fund_id = ''000001'', data = None, interval = 900, last_fetch = Some 0,
       fetches = 1, logged = [FundInfoItem_not_found]\<rparr>, [])"
proof -
  have a: "setup_platform dec_float (serve ''000001'' page_ok) 0 config_ok =
     (Inr None, fetcher_with snapshot_ok, [EastmoneySensor (fetcher_with snapshot_ok) ''Fund''])"
    by code_simp
  have b: "setup_platform dec_float (serve ''000001'' (title_page ''(000001'')) 0 config_ok =
     (Inr (Some False),
      \<lparr>fund_id = ''000001'', data = None, interval = 900, last_fetch = Some 0,
       fetches = 1, logged = [FundInfoItem_not_found]\<rparr>, [])"
    by code_simp
  have c: "data (fetcher_with snapshot_ok) = Some snapshot_ok" "conf_name config_ok = ''Fund''"
    by (simp_all add: fetcher_with_def config_ok_def)
  from setup_registers [OF a] setup_registers [OF b] a b c show ?thesis by simp
qed

subsection \<open>C10: an unset change\<close>

text \<open>
  C10: on a page whose estimate region has the headline value, the time and the rate
  "1.2%" and no change element, the fetcher stores a snapshot whose change is
  \<^verbatim>\<open>None\<close>, and \<^verbatim>\<open>EastmoneySensor.update\<close> then raises TypeError.
\<close>

theorem unset_change_raises:
  "map_option (\<lambda>d. (enav (est_nav d), enav_time (est_nav d), enav_rate (est_nav d),
                     enav_growth (est_nav d)))
     (data (snd (update dec_float (serve ''000001'' page_no_growth) 0 (EastmoneyData ''000001'' 900))))
     = Some (Some ''1.234'', Some ''23-05-10 15:00'', Some ''1.2%'', None) \<and>
   fst (sensor_update dec_float (serve ''000001'' page_no_growth) 0
          (EastmoneySensor (EastmoneyData ''000001'' 900) ''Fund'')) = Some TypeError"
  by code_simp

end
